theory Spec2Isabelle
  imports Main "HOL-Library.Sublist" "HOL-Library.List_Lexorder"
begin

section \<open>Data model\<close>

text \<open>
  Both services exchange JSON. A parsed JSON document is what Python's decoder
  produces: \<open>None\<close>, a bool, an int, a float, a \<open>str\<close>, a list or a dict. A Python
  \<open>str\<close> is a sequence of Unicode code points, so a string is a list of code points
  (not of bytes): slicing a \<open>str\<close> counts code points. Neither handler looks inside a
  number, so the carrier of floats is left as the type parameter \<open>'f\<close>. A dict keeps
  its insertion order and is an association list.
\<close>

type_synonym pystr = "nat list"

definition str :: "string \<Rightarrow> pystr" where
  "str s = map of_char s"

datatype 'f jsonval =
    JNull
  | JBool bool
  | JInt int
  | JFloat 'f
  | JStr pystr
  | JArr "'f jsonval list"
  | JObj "(pystr \<times> 'f jsonval) list"

text \<open>Reading a key of a JSON object (\<open>None\<close> for a missing key or a non-object).\<close>

fun json_get :: "pystr \<Rightarrow> 'f jsonval \<Rightarrow> 'f jsonval option" where
  "json_get k (JObj kvs) = map_of kvs k"
| "json_get k v = None"

text \<open>
  The inbound request is ambient context in Flask (\<open>flask.request\<close>); a view function
  takes no argument but may read it. It is passed explicitly here.
\<close>

record request =
  verb :: string
  path :: string
  query :: "(string \<times> string) list"

text \<open>
  What a view function hands back to the framework: a status and, when the body is JSON,
  the document (\<open>None\<close> for a body that is not JSON).
\<close>

record 'f http_response =
  status :: nat
  payload :: "'f jsonval option"

text \<open>
  The \<open>requests.Response\<close> object as the Cart Service sees it: the status code, and the
  result of its \<open>.json()\<close> method (\<open>None\<close> when the body is not valid JSON, where
  \<open>.json()\<close> raises).
\<close>

record 'f response =
  status_code :: nat
  json :: "'f jsonval option"

text \<open>
  A reply on the wire is either final, or a redirect (a 3xx status with a \<open>Location\<close>
  header) naming the address to ask next.
\<close>

datatype 'f reply = Final "'f response" | Redirect string

datatype net_error = ConnectionError | Timeout | TooManyRedirects

text \<open>
  The faults the Cart Service's view function can raise: \<open>requests.get\<close> failing,
  \<open>.json()\<close> failing, and the subscript \<open>products[:2]\<close> failing (a \<open>TypeError\<close>, or
  for a dict on newer interpreters a \<open>KeyError\<close>).
\<close>

datatype fault = RequestException net_error | JSONDecodeError | SubscriptError

text \<open>
  One GET put on the wire: the URL it asks for, and the proxy it is sent through
  (\<open>None\<close> when it goes to the URL's host directly).
\<close>

record hop =
  target :: string
  via :: "string option"

text \<open>
  The world outside the Cart Service's code: what a single GET for a URL currently
  yields on the wire, the proxy that the process environment (\<open>HTTP_PROXY\<close>,
  \<open>NO_PROXY\<close>, ...) selects for a URL, and the trace of the GETs put on the wire so far.
\<close>

record 'f world =
  wire :: "string \<Rightarrow> net_error + 'f reply"
  proxy :: "string \<Rightarrow> string option"
  outbound :: "hop list"

section \<open>Library operations used by the handlers\<close>

text \<open>\<open>flask.jsonify(v)\<close>: a 200 response whose body is the document \<open>v\<close>.\<close>

definition jsonify :: "'f jsonval \<Rightarrow> 'f http_response" where
  "jsonify v = \<lparr>status = 200, payload = Some v\<rparr>"

text \<open>
  \<open>requests.get(url)\<close>, called as the Cart Service calls it, with the library's defaults:
  \<^item> every GET goes through the proxy the environment selects for its URL, chosen anew
    for each URL (\<open>trust_env\<close>);
  \<^item> a network error is raised, never retried (\<open>max_retries = 0\<close>);
  \<^item> a redirect is followed by a GET for the address it names (\<open>allow_redirects\<close>), at
    most \<open>max_redirects = 30\<close> times in one call; one redirect more raises
    \<open>TooManyRedirects\<close>;
  \<^item> any other reply is returned, whatever its status code.
\<close>

definition put_on_wire :: "string \<Rightarrow> 'f world \<Rightarrow> 'f world" where
  "put_on_wire url w = w\<lparr>outbound := outbound w @ [\<lparr>target = url, via = proxy w url\<rparr>]\<rparr>"

fun follow :: "nat \<Rightarrow> string \<Rightarrow> 'f world \<Rightarrow> (net_error + 'f response) \<times> 'f world" where
  "follow 0 url w =
     (case wire w url of
        Inl e \<Rightarrow> (Inl e, put_on_wire url w)
      | Inr (Final resp) \<Rightarrow> (Inr resp, put_on_wire url w)
      | Inr (Redirect loc) \<Rightarrow> (Inl TooManyRedirects, put_on_wire url w))"
| "follow (Suc n) url w =
     (case wire w url of
        Inl e \<Rightarrow> (Inl e, put_on_wire url w)
      | Inr (Final resp) \<Rightarrow> (Inr resp, put_on_wire url w)
      | Inr (Redirect loc) \<Rightarrow> follow n loc (put_on_wire url w))"

definition max_redirects :: nat where
  "max_redirects = 30"

definition requests_get :: "string \<Rightarrow> 'f world \<Rightarrow> (net_error + 'f response) \<times> 'f world" where
  "requests_get url w = follow max_redirects url w"

text \<open>
  What a call of \<open>requests.get\<close> for a URL hands to its caller in a world: the
  \<open>Response\<close> that ends the redirect chain, or the fault.
\<close>

definition network :: "'f world \<Rightarrow> string \<Rightarrow> net_error + 'f response" where
  "network w url = fst (requests_get url w)"

text \<open>
  Flask's JSON encoder, through which \<open>jsonify\<close> writes the body, has \<open>sort_keys\<close> on by
  default: the keys of every object, at any depth, are written in sorted order (Python
  orders \<open>str\<close> lexicographically by code point). \<open>as_written v\<close> is the document \<open>v\<close>
  with its keys in the order they appear in the bytes of the response. Only the order of
  keys is modelled, not the text of a number or of a string.
\<close>

primrec as_written :: "'f jsonval \<Rightarrow> 'f jsonval" where
  "as_written JNull = JNull"
| "as_written (JBool b) = JBool b"
| "as_written (JInt i) = JInt i"
| "as_written (JFloat x) = JFloat x"
| "as_written (JStr s) = JStr s"
| "as_written (JArr xs) = JArr (map as_written xs)"
| "as_written (JObj kvs) = JObj (sort_key fst (map (map_prod id as_written) kvs))"

text \<open>
  The subscript \<open>v[:2]\<close> on a decoded JSON value: lists and strings are sliced (a slice
  never raises on a short sequence), everything else raises.
\<close>

fun slice2 :: "'f jsonval \<Rightarrow> fault + 'f jsonval" where
  "slice2 (JArr xs) = Inr (JArr (take 2 xs))"
| "slice2 (JStr s) = Inr (JStr (take 2 s))"
| "slice2 (JObj kvs) = Inl SubscriptError"
| "slice2 JNull = Inl SubscriptError"
| "slice2 (JBool b) = Inl SubscriptError"
| "slice2 (JInt i) = Inl SubscriptError"
| "slice2 (JFloat x) = Inl SubscriptError"

text \<open>
  Modelled from the spec: Flask's default treatment of an exception that escapes a view
  function (the framework is not part of the repository). The spec: the fault
  "results in an unhandled-fault response to the Cart Service's own caller
  (framework-default error behavior, typically an HTTP 500 with no structured body)".
\<close>

definition flask_serve :: "fault + 'f http_response \<Rightarrow> 'f http_response" where
  "flask_serve out = (case out of Inl e \<Rightarrow> \<lparr>status = 500, payload = None\<rparr> | Inr r \<Rightarrow> r)"

section \<open>Product Service\<close>

text \<open>
  \<^verbatim>\<open>
  @app.route("/products")
  def products():
      sample_products = [
          {"id": 1, "name": "Laptop"},
          {"id": 2, "name": "Mouse"},
          {"id": 3, "name": "Keyboard"}
      ]
      return jsonify(sample_products)
  \<close>
\<close>

definition sample_products :: "'f jsonval" where
  "sample_products = JArr
     [JObj [(str ''id'', JInt 1), (str ''name'', JStr (str ''Laptop''))],
      JObj [(str ''id'', JInt 2), (str ''name'', JStr (str ''Mouse''))],
      JObj [(str ''id'', JInt 3), (str ''name'', JStr (str ''Keyboard''))]]"

definition products :: "request \<Rightarrow> 'f http_response" where
  "products req = jsonify sample_products"

section \<open>Cart Service\<close>

text \<open>
  \<^verbatim>\<open>
  PRODUCT_SERVICE_URL = "http://productservice:5001/products"

  @app.route("/cart")
  def cart():
      products = requests.get(PRODUCT_SERVICE_URL).json()
      cart_items = products[:2]  # first 2 products
      return jsonify({"cart": cart_items})
  \<close>
  The view function threads the world through the one call of \<open>requests.get\<close>; each
  place where the Python can raise is an \<open>Inl\<close> branch. The local \<open>products\<close> is
  \<open>upstream_products\<close> here, the name \<open>products\<close> being the other service's handler.
\<close>

definition PRODUCT_SERVICE_URL :: string where
  "PRODUCT_SERVICE_URL = ''http://productservice:5001/products''"

definition cart :: "request \<Rightarrow> 'f world \<Rightarrow> (fault + 'f http_response) \<times> 'f world" where
  "cart req w =
     (case requests_get PRODUCT_SERVICE_URL w of
        (Inl e, w') \<Rightarrow> (Inl (RequestException e), w')
      | (Inr resp, w') \<Rightarrow>
          (case json resp of
             None \<Rightarrow> (Inl JSONDecodeError, w')
           | Some upstream_products \<Rightarrow>
               (case slice2 upstream_products of
                  Inl e \<Rightarrow> (Inl e, w')
                | Inr cart_items \<Rightarrow> (Inr (jsonify (JObj [(str ''cart'', cart_items)])), w'))))"

section \<open>Concrete deployments\<close>

text \<open>
  A world in which a GET for the Product Service's URL yields the given outcome with no
  redirect, every other address is unreachable, no proxy is configured, and nothing has
  been put on the wire yet.
\<close>

definition deployment :: "net_error + 'f response \<Rightarrow> 'f world" where
  "deployment out =
     \<lparr>wire = (\<lambda>url. if url = PRODUCT_SERVICE_URL then map_sum id Final out
                     else Inl ConnectionError),
      proxy = (\<lambda>url. None),
      outbound = []\<rparr>"



text \<open>What a client receives when a service answers with the given response.\<close>

definition received :: "'f http_response \<Rightarrow> 'f response" where
  "received r = \<lparr>status_code = status r, json = payload r\<rparr>"

definition get_cart :: request where
  "get_cart = \<lparr>verb = ''GET'', path = ''/cart'', query = []\<rparr>"

definition get_products :: request where
  "get_products = \<lparr>verb = ''GET'', path = ''/products'', query = []\<rparr>"

text \<open>
  The \<open>cart\<close> field of what the Cart Service's view function produced (\<open>None\<close> when it
  raised, or when the body has no such field).
\<close>

definition cart_field :: "fault + 'f http_response \<Rightarrow> 'f jsonval option" where
  "cart_field out =
     (case out of
        Inl e \<Rightarrow> None
      | Inr r \<Rightarrow> (case payload r of None \<Rightarrow> None | Some body \<Rightarrow> json_get (str ''cart'') body))"

text \<open>The same field as it is written in the bytes of the response.\<close>

definition cart_written :: "fault + 'f http_response \<Rightarrow> 'f jsonval option" where
  "cart_written out =
     (case out of
        Inl e \<Rightarrow> None
      | Inr r \<Rightarrow>
          (case payload r of
             None \<Rightarrow> None
           | Some body \<Rightarrow> json_get (str ''cart'') (as_written body)))"

section \<open>Shared facts\<close>

lemma take_two: "2 \<le> length xs \<Longrightarrow> take 2 xs = [xs ! 0, xs ! 1]"
  by (cases xs; cases "tl xs") auto

lemma slice2_ok: "slice2 v = Inr u \<Longrightarrow> (\<exists>xs. v = JArr xs) \<or> (\<exists>s. v = JStr s)"
  by (cases v) auto

subsection \<open>One call of the library\<close>

lemma put_on_wire_fields [simp]:
  "wire (put_on_wire url w) = wire w"
  "proxy (put_on_wire url w) = proxy w"
  "outbound (put_on_wire url w) = outbound w @ [\<lparr>target = url, via = proxy w url\<rparr>]"
  by (simp_all add: put_on_wire_def)

lemma follow_error: "wire w url = Inl e \<Longrightarrow> follow n url w = (Inl e, put_on_wire url w)"
  by (cases n) simp_all

lemma follow_final:
  "wire w url = Inr (Final resp) \<Longrightarrow> follow n url w = (Inr resp, put_on_wire url w)"
  by (cases n) simp_all


text \<open>What a call returns depends on the wire only.\<close>

lemma follow_result:
  "wire w1 = wire w2 \<Longrightarrow> fst (follow n url w1) = fst (follow n url w2)"
proof (induction n arbitrary: url w1 w2)
  case 0
  then show ?case by (simp split: sum.splits reply.splits)
next
  case (Suc n)
  show ?case
  proof (cases "wire w2 url")
    case (Inl e)
    with Suc.prems show ?thesis by simp
  next
    case (Inr r)
    show ?thesis
    proof (cases r)
      case (Final resp)
      with Inr Suc.prems show ?thesis by simp
    next
      case (Redirect loc)
      have "fst (follow n loc (put_on_wire url w1)) = fst (follow n loc (put_on_wire url w2))"
        by (rule Suc.IH) (simp add: Suc.prems)
      with Redirect Inr Suc.prems show ?thesis by simp
    qed
  qed
qed

text \<open>
  The GETs one call puts on the wire, read off the world: the URL asked for, then the
  addresses of the redirects followed.
\<close>

lemma follow_trace:
  "\<exists>hs. snd (follow n url w) =
          w\<lparr>outbound := outbound w @ \<lparr>target = url, via = proxy w url\<rparr> # hs\<rparr>
        \<and> length hs \<le> n
        \<and> (\<forall>h \<in> set hs. via h = proxy w (target h))
        \<and> ((\<forall>loc. wire w url \<noteq> Inr (Redirect loc)) \<longrightarrow> hs = [])
        \<and> (\<forall>loc. wire w url = Inr (Redirect loc) \<and> 0 < n \<longrightarrow> hs \<noteq> [] \<and> target (hd hs) = loc)
        \<and> (\<forall>w'. wire w' = wire w \<and> proxy w' = proxy w \<longrightarrow>
              snd (follow n url w') =
                w'\<lparr>outbound := outbound w' @ \<lparr>target = url, via = proxy w url\<rparr> # hs\<rparr>)"
proof (induction n arbitrary: url w)
  case 0
  show ?case
    by (rule exI [of _ "[]"]) (simp add: put_on_wire_def split: sum.splits reply.splits)
next
  case (Suc n)
  show ?case
  proof (cases "\<exists>loc. wire w url = Inr (Redirect loc)")
    case False
    then show ?thesis
      by (intro exI [of _ "[]"]) (auto simp: put_on_wire_def split: sum.splits reply.splits)
  next
    case True
    then obtain loc where loc: "wire w url = Inr (Redirect loc)" by blast
    let ?w = "put_on_wire url w"
    from Suc.IH [of loc ?w] obtain hs where
      tr: "snd (follow n loc ?w) =
             ?w\<lparr>outbound := outbound ?w @ \<lparr>target = loc, via = proxy ?w loc\<rparr> # hs\<rparr>"
      and len: "length hs \<le> n"
      and px: "\<forall>h \<in> set hs. via h = proxy ?w (target h)"
      and any: "\<forall>w'. wire w' = wire ?w \<and> proxy w' = proxy ?w \<longrightarrow>
              snd (follow n loc w') =
                w'\<lparr>outbound := outbound w' @ \<lparr>target = loc, via = proxy ?w loc\<rparr> # hs\<rparr>"
      by blast
    let ?hs = "\<lparr>target = loc, via = proxy w loc\<rparr> # hs"
    have "snd (follow (Suc n) url w) =
            w\<lparr>outbound := outbound w @ \<lparr>target = url, via = proxy w url\<rparr> # ?hs\<rparr>"
      using loc tr by (simp add: put_on_wire_def)
    moreover have "length ?hs \<le> Suc n" using len by simp
    moreover have "\<forall>h \<in> set ?hs. via h = proxy w (target h)" using px by simp
    moreover have "\<forall>w'. wire w' = wire w \<and> proxy w' = proxy w \<longrightarrow>
              snd (follow (Suc n) url w') =
                w'\<lparr>outbound := outbound w' @ \<lparr>target = url, via = proxy w url\<rparr> # ?hs\<rparr>"
    proof (intro allI impI)
      fix w' :: "'a world"
      assume same: "wire w' = wire w \<and> proxy w' = proxy w"
      then have "snd (follow n loc (put_on_wire url w')) =
          (put_on_wire url w')\<lparr>outbound := outbound (put_on_wire url w')
              @ \<lparr>target = loc, via = proxy ?w loc\<rparr> # hs\<rparr>"
        using any by simp
      with same loc show "snd (follow (Suc n) url w') =
                w'\<lparr>outbound := outbound w' @ \<lparr>target = url, via = proxy w url\<rparr> # ?hs\<rparr>"
        by (simp add: put_on_wire_def)
    qed
    ultimately show ?thesis using loc
      by (intro exI [of _ ?hs]) simp
  qed
qed

lemma follow_frame:
  "wire (snd (follow n url w)) = wire w" "proxy (snd (follow n url w)) = proxy w"
proof -
  from follow_trace [of n url w] obtain hs where
    "snd (follow n url w) =
       w\<lparr>outbound := outbound w @ \<lparr>target = url, via = proxy w url\<rparr> # hs\<rparr>"
    by blast
  then show "wire (snd (follow n url w)) = wire w" "proxy (snd (follow n url w)) = proxy w"
    by simp_all
qed

subsection \<open>The view function\<close>

lemma cart_world: "snd (cart req w) = snd (requests_get PRODUCT_SERVICE_URL w)"
  by (cases "requests_get PRODUCT_SERVICE_URL w")
    (simp add: cart_def split: sum.splits option.splits)

lemma cart_frame:
  "wire (snd (cart req w)) = wire w" "proxy (snd (cart req w)) = proxy w"
  by (simp_all add: cart_world requests_get_def follow_frame)

lemma network_frame:
  assumes "wire w1 = wire w2"
  shows "network w1 = network w2"
proof
  fix url
  from assms have "fst (follow max_redirects url w1) = fst (follow max_redirects url w2)"
    by (rule follow_result)
  then show "network w1 url = network w2 url"
    by (simp add: network_def requests_get_def)
qed

lemma cart_reply:
  "network w PRODUCT_SERVICE_URL = Inr resp \<Longrightarrow> json resp = Some v \<Longrightarrow>
   fst (cart req w) = map_sum id (\<lambda>items. jsonify (JObj [(str ''cart'', items)])) (slice2 v)"
  by (cases "requests_get PRODUCT_SERVICE_URL w")
    (simp add: cart_def network_def split: sum.splits)

lemma cart_net_error:
  "network w PRODUCT_SERVICE_URL = Inl e \<Longrightarrow> fst (cart req w) = Inl (RequestException e)"
  by (cases "requests_get PRODUCT_SERVICE_URL w") (simp add: cart_def network_def)

lemma cart_not_json:
  "network w PRODUCT_SERVICE_URL = Inr resp \<Longrightarrow> json resp = None \<Longrightarrow>
   fst (cart req w) = Inl JSONDecodeError"
  by (cases "requests_get PRODUCT_SERVICE_URL w") (simp add: cart_def network_def)

lemma cart_array:
  "network w PRODUCT_SERVICE_URL = Inr resp \<Longrightarrow> json resp = Some (JArr xs) \<Longrightarrow>
   fst (cart req w) = Inr \<lparr>status = 200, payload = Some (JObj [(str ''cart'', JArr (take 2 xs))])\<rparr>"
  by (simp add: cart_reply jsonify_def)

lemma cart_field_array:
  "network w PRODUCT_SERVICE_URL = Inr resp \<Longrightarrow> json resp = Some (JArr xs) \<Longrightarrow>
   cart_field (fst (cart req w)) = Some (JArr (take 2 xs))"
  by (simp add: cart_array cart_field_def)

lemma cart_written_array:
  "network w PRODUCT_SERVICE_URL = Inr resp \<Longrightarrow> json resp = Some (JArr xs) \<Longrightarrow>
   cart_written (fst (cart req w)) = Some (JArr (map as_written (take 2 xs)))"
  by (simp add: cart_array cart_written_def)

lemma cart_upstream_only:
  "network w1 PRODUCT_SERVICE_URL = network w2 PRODUCT_SERVICE_URL \<Longrightarrow>
   fst (cart r1 w1) = fst (cart r2 w2)"
  by (cases "requests_get PRODUCT_SERVICE_URL w1"; cases "requests_get PRODUCT_SERVICE_URL w2")
    (simp add: cart_def network_def split: sum.splits option.splits)

lemma deployment_network [simp]: "network (deployment out) PRODUCT_SERVICE_URL = out"
  by (cases out) (simp_all add: network_def requests_get_def deployment_def follow_error follow_final)

section \<open>Product Service: the catalog\<close>

text \<open>
  C2. Every call of the \<open>/products\<close> handler, whatever the request, answers 200 with the
  fixed ordered list Laptop (id 1), Mouse (id 2), Keyboard (id 3).
\<close>

theorem products_fixed_catalog:
  "products req =
     \<lparr>status = 200,
      payload = Some (JArr
        [JObj [(str ''id'', JInt 1), (str ''name'', JStr (str ''Laptop''))],
         JObj [(str ''id'', JInt 2), (str ''name'', JStr (str ''Mouse''))],
         JObj [(str ''id'', JInt 3), (str ''name'', JStr (str ''Keyboard''))]])\<rparr>"
  by (simp add: products_def jsonify_def sample_products_def)

text \<open>
  C7. The \<open>/products\<close> handler is deterministic: two calls, whatever requests they serve,
  give the same response, and that response holds three entries whose ids are 1, 2, 3
  and whose names are Laptop, Mouse, Keyboard, in this order.
\<close>

theorem products_deterministic:
  "products r1 = (products r2 :: 'f http_response)
   \<and> (\<exists>es. payload (products r1 :: 'f http_response) = Some (JArr es) \<and> length es = 3
        \<and> map (json_get (str ''id'')) es = [Some (JInt 1), Some (JInt 2), Some (JInt 3)]
        \<and> map (json_get (str ''name'')) es =
            [Some (JStr (str ''Laptop'')), Some (JStr (str ''Mouse'')),
             Some (JStr (str ''Keyboard''))])"
  by (simp add: products_def jsonify_def sample_products_def str_def)

section \<open>Cart Service: the cart is the two-element prefix of the catalog\<close>

text \<open>
  C1. When the Product Service's reply parses to a JSON array with at least two entries,
  the \<open>/cart\<close> handler answers 200 with a body whose \<open>cart\<close> field is exactly the first
  and the second entry of that array, in this order.
\<close>

theorem cart_first_two:
  assumes "network w PRODUCT_SERVICE_URL = Inr resp"
    and "json resp = Some (JArr xs)"
    and "2 \<le> length xs"
  shows "fst (cart req w) =
    Inr \<lparr>status = 200, payload = Some (JObj [(str ''cart'', JArr [xs ! 0, xs ! 1])])\<rparr>"
  using assms by (simp add: cart_array take_two)

text \<open>
  The deployment of the repository: the URL is answered by the Product Service itself,
  and the cart is Laptop, Mouse.
\<close>

theorem cart_first_two_witness:
  "network (deployment (Inr (received (products get_products))) :: unit world) PRODUCT_SERVICE_URL
     = Inr (received (products get_products))
   \<and> json (received (products get_products) :: unit response) = Some sample_products
   \<and> fst (cart get_cart (deployment (Inr (received (products get_products))) :: unit world)) =
     Inr \<lparr>status = 200, payload = Some (JObj [(str ''cart'', JArr
        [JObj [(str ''id'', JInt 1), (str ''name'', JStr (str ''Laptop''))],
         JObj [(str ''id'', JInt 2), (str ''name'', JStr (str ''Mouse''))]])])\<rparr>"
  using cart_first_two [of "deployment (Inr (received (products get_products)))"
      "received (products get_products)"
      "[JObj [(str ''id'', JInt 1), (str ''name'', JStr (str ''Laptop''))],
        JObj [(str ''id'', JInt 2), (str ''name'', JStr (str ''Mouse''))],
        JObj [(str ''id'', JInt 3), (str ''name'', JStr (str ''Keyboard''))]]" get_cart]
  by (simp add: received_def products_def jsonify_def sample_products_def)

text \<open>
  C4. For an upstream array of any length, the \<open>cart\<close> sequence has at most two elements
  and is a prefix of the upstream array: it is the array truncated to two elements,
  nothing selected, filtered or reordered.
\<close>

theorem cart_prefix_of_upstream:
  assumes "network w PRODUCT_SERVICE_URL = Inr resp"
    and "json resp = Some (JArr xs)"
  shows "\<exists>ys. fst (cart req w) =
            Inr \<lparr>status = 200, payload = Some (JObj [(str ''cart'', JArr ys)])\<rparr>
          \<and> length ys \<le> 2 \<and> prefix ys xs \<and> ys = take 2 xs"
  using assms by (simp add: cart_array take_is_prefix)

theorem cart_prefix_of_upstream_witness:
  "\<exists>ys. fst (cart get_cart (deployment (Inr \<lparr>status_code = 200,
              json = Some (JArr [JInt 7, JNull, JBool True, JInt 9])\<rparr>) :: unit world)) =
            Inr \<lparr>status = 200, payload = Some (JObj [(str ''cart'', JArr ys)])\<rparr>
          \<and> length ys \<le> 2 \<and> prefix ys [JInt 7, JNull, JBool True, JInt 9]
          \<and> ys = [JInt 7, JNull]"
  using cart_prefix_of_upstream [of
      "deployment (Inr \<lparr>status_code = 200,
         json = Some (JArr [JInt 7, JNull, JBool True, JInt 9])\<rparr>)"
      "\<lparr>status_code = 200, json = Some (JArr [JInt 7, JNull, JBool True, JInt 9])\<rparr>"
      "[JInt 7, JNull, JBool True, JInt 9]" get_cart]
  by simp

text \<open>
  C5. When the upstream array has no entry or one entry, the handler does not raise: it
  answers 200 and the \<open>cart\<close> field is the whole upstream array.
\<close>

theorem cart_short_catalog:
  assumes "network w PRODUCT_SERVICE_URL = Inr resp"
    and "json resp = Some (JArr xs)"
    and "length xs \<le> 1"
  shows "fst (cart req w) =
           Inr \<lparr>status = 200, payload = Some (JObj [(str ''cart'', JArr xs)])\<rparr>"
  using assms by (simp add: cart_array)

theorem cart_short_catalog_witness:
  "fst (cart get_cart
      (deployment (Inr \<lparr>status_code = 200, json = Some (JArr [])\<rparr>) :: unit world)) =
     Inr \<lparr>status = 200, payload = Some (JObj [(str ''cart'', JArr [])])\<rparr>
   \<and> fst (cart get_cart (deployment (Inr \<lparr>status_code = 200,
          json = Some (JArr [JObj [(str ''id'', JInt 1), (str ''name'', JStr (str ''Laptop''))]])\<rparr>)
          :: unit world)) =
     Inr \<lparr>status = 200, payload = Some (JObj [(str ''cart'',
          JArr [JObj [(str ''id'', JInt 1), (str ''name'', JStr (str ''Laptop''))]])])\<rparr>"
  using cart_short_catalog [of
      "deployment (Inr \<lparr>status_code = 200, json = Some (JArr [])\<rparr>)"
      "\<lparr>status_code = 200, json = Some (JArr [])\<rparr>" "[]" get_cart]
    cart_short_catalog [of
      "deployment (Inr \<lparr>status_code = 200,
          json = Some (JArr [JObj [(str ''id'', JInt 1), (str ''name'', JStr (str ''Laptop''))]])\<rparr>)"
      "\<lparr>status_code = 200,
          json = Some (JArr [JObj [(str ''id'', JInt 1), (str ''name'', JStr (str ''Laptop''))]])\<rparr>"
      "[JObj [(str ''id'', JInt 1), (str ''name'', JStr (str ''Laptop''))]]" get_cart]
  by simp

text \<open>
  C6, as the code has it. Every element of the \<open>cart\<close> field is the upstream element at
  the same position, as a decoded JSON value: the handler changes, checks or drops
  nothing inside an item, it only truncates the array. The identity is one of values,
  not of bytes: the response is encoded anew, and in its bytes each item is the upstream
  item with its keys in sorted order.
\<close>

theorem cart_items_unmodified:
  assumes "network w PRODUCT_SERVICE_URL = Inr resp"
    and "json resp = Some (JArr xs)"
  shows "\<exists>ys. cart_field (fst (cart req w)) = Some (JArr ys)
          \<and> length ys = min 2 (length xs)
          \<and> (\<forall>i < length ys. ys ! i = xs ! i)
          \<and> cart_written (fst (cart req w)) = Some (JArr (map as_written ys))"
  using assms by (simp add: cart_field_array cart_written_array)

theorem cart_items_unmodified_witness:
  "\<exists>ys. cart_field (fst (cart get_cart
            (deployment (Inr (received (products get_products))) :: unit world))) = Some (JArr ys)
          \<and> length ys = 2
          \<and> ys ! 0 = JObj [(str ''id'', JInt 1), (str ''name'', JStr (str ''Laptop''))]
          \<and> ys ! 1 = JObj [(str ''id'', JInt 2), (str ''name'', JStr (str ''Mouse''))]
          \<and> cart_written (fst (cart get_cart
            (deployment (Inr (received (products get_products))) :: unit world)))
              = Some (JArr (map as_written ys))"
proof -
  let ?xs = "[JObj [(str ''id'', JInt 1), (str ''name'', JStr (str ''Laptop''))],
        JObj [(str ''id'', JInt 2), (str ''name'', JStr (str ''Mouse''))],
        JObj [(str ''id'', JInt 3), (str ''name'', JStr (str ''Keyboard''))]] :: unit jsonval list"
  have net: "network (deployment (Inr (received (products get_products))) :: unit world)
      PRODUCT_SERVICE_URL = Inr (received (products get_products))"
    by simp
  have body: "json (received (products get_products) :: unit response) = Some (JArr ?xs)"
    by (simp add: received_def products_def jsonify_def sample_products_def)
  from cart_items_unmodified [OF net body, of get_cart]
  obtain ys where ys: "cart_field (fst (cart get_cart
            (deployment (Inr (received (products get_products))) :: unit world))) = Some (JArr ys)"
    and len: "length ys = min 2 (length ?xs)" and same: "\<forall>i < length ys. ys ! i = ?xs ! i"
    and wr: "cart_written (fst (cart get_cart
            (deployment (Inr (received (products get_products))) :: unit world)))
              = Some (JArr (map as_written ys))"
    by blast
  from len have len2: "length ys = 2" by simp
  from same len2 have "ys ! 0 = ?xs ! 0" and "ys ! 1 = ?xs ! 1" by simp_all
  with ys len2 wr show ?thesis by simp
qed

text \<open>
  The upstream body is \<open>[{"name": "Laptop", "id": 1}]\<close>. The item in the bytes of the
  \<open>/cart\<close> response is \<open>{"id": 1, "name": "Laptop"}\<close>: the same value, other bytes.
\<close>

theorem cart_item_bytes_counterexample:
  "network (deployment (Inr \<lparr>status_code = 200,
        json = Some (JArr [JObj [(str ''name'', JStr (str ''Laptop'')), (str ''id'', JInt 1)]])\<rparr>)
        :: unit world) PRODUCT_SERVICE_URL
     = Inr \<lparr>status_code = 200,
        json = Some (JArr [JObj [(str ''name'', JStr (str ''Laptop'')), (str ''id'', JInt 1)]])\<rparr>
   \<and> cart_written (fst (cart get_cart (deployment (Inr \<lparr>status_code = 200,
        json = Some (JArr [JObj [(str ''name'', JStr (str ''Laptop'')), (str ''id'', JInt 1)]])\<rparr>)
        :: unit world)))
     = Some (JArr [JObj [(str ''id'', JInt 1), (str ''name'', JStr (str ''Laptop''))]])
   \<and> JObj [(str ''id'', JInt 1), (str ''name'', JStr (str ''Laptop''))]
     \<noteq> (JObj [(str ''name'', JStr (str ''Laptop'')), (str ''id'', JInt 1)] :: unit jsonval)"
  by (simp add: cart_written_array str_def)

section \<open>Cart Service: effects\<close>

text \<open>
  C8. Repeated \<open>/cart\<close> calls against an unchanged upstream give the same result: a
  second run, started in the world the first run left behind, returns what the first
  returned, and neither run changes what a GET to any URL yields, which is the only
  state the handler consults.
\<close>

theorem cart_idempotent:
  "fst (cart r2 (snd (cart r1 w))) = fst (cart r1 w)
   \<and> network (snd (cart r1 w)) = network w
   \<and> network (snd (cart r2 (snd (cart r1 w)))) = network w"
proof -
  have same: "network (snd (cart r1 w)) = network w"
    by (rule network_frame) (simp add: cart_frame)
  then have "fst (cart r2 (snd (cart r1 w))) = fst (cart r1 w)"
    by (intro cart_upstream_only) simp
  moreover have "network (snd (cart r2 (snd (cart r1 w)))) = network w"
    by (rule network_frame) (simp add: cart_frame)
  ultimately show ?thesis using same by simp
qed




section \<open>Cart Service: faults\<close>

text \<open>
  C3, as the code has it. When the outbound call fails with a network error, or the
  reply's body is not valid JSON, the handler raises that fault, uncaught and
  untranslated, and the caller gets the framework's generic server error. A status
  outside 2xx is not a fault of its own: the handler never reads the status code, and
  two replies with the same body give the same result whatever their status codes.
\<close>

theorem cart_fault_propagates:
  "(network w PRODUCT_SERVICE_URL = Inl e \<longrightarrow>
      fst (cart req w) = Inl (RequestException e)
      \<and> flask_serve (fst (cart req w)) = \<lparr>status = 500, payload = None\<rparr>)
   \<and> (network w PRODUCT_SERVICE_URL = Inr resp \<and> json resp = None \<longrightarrow>
      fst (cart req w) = Inl JSONDecodeError
      \<and> flask_serve (fst (cart req w)) = \<lparr>status = 500, payload = None\<rparr>)
   \<and> (network w PRODUCT_SERVICE_URL = Inr resp \<and> network w' PRODUCT_SERVICE_URL = Inr resp'
        \<and> json resp' = json resp \<longrightarrow>
      fst (cart req w') = fst (cart req w))"
proof (intro conjI impI)
  assume "network w PRODUCT_SERVICE_URL = Inr resp \<and> network w' PRODUCT_SERVICE_URL = Inr resp'
        \<and> json resp' = json resp"
  then show "fst (cart req w') = fst (cart req w)"
    by (cases "json resp") (simp_all add: cart_not_json cart_reply)
qed (simp_all add: cart_net_error cart_not_json flask_serve_def)

theorem cart_fault_propagates_witness:
  "fst (cart get_cart (deployment (Inl Timeout) :: unit world)) = Inl (RequestException Timeout)
   \<and> flask_serve (fst (cart get_cart (deployment (Inl Timeout) :: unit world)))
       = \<lparr>status = 500, payload = None\<rparr>
   \<and> fst (cart get_cart (deployment (Inr \<lparr>status_code = 200, json = None\<rparr>) :: unit world))
       = Inl JSONDecodeError
   \<and> flask_serve (fst (cart get_cart
         (deployment (Inr \<lparr>status_code = 200, json = None\<rparr>) :: unit world)))
       = \<lparr>status = 500, payload = None\<rparr>
   \<and> fst (cart get_cart
         (deployment (Inr \<lparr>status_code = 404, json = Some (JArr [JInt 1])\<rparr>) :: unit world))
       = fst (cart get_cart (deployment (Inr \<lparr>status_code = 200, json = Some (JArr [JInt 1])\<rparr>)))"
  using cart_fault_propagates [where w = "deployment (Inl Timeout) :: unit world" and e = Timeout
        and req = get_cart and resp = "\<lparr>status_code = 200, json = None\<rparr>"
        and w' = "deployment (Inl Timeout)" and resp' = "\<lparr>status_code = 200, json = None\<rparr>"]
    cart_fault_propagates [where
        w = "deployment (Inr \<lparr>status_code = 200, json = None\<rparr>) :: unit world"
        and e = Timeout and req = get_cart and resp = "\<lparr>status_code = 200, json = None\<rparr>"
        and w' = "deployment (Inl Timeout)" and resp' = "\<lparr>status_code = 200, json = None\<rparr>"]
    cart_fault_propagates [where
        w = "deployment (Inr \<lparr>status_code = 200, json = Some (JArr [JInt 1])\<rparr>) :: unit world"
        and e = Timeout and req = get_cart
        and resp = "\<lparr>status_code = 200, json = Some (JArr [JInt 1])\<rparr>"
        and w' = "deployment (Inr \<lparr>status_code = 404, json = Some (JArr [JInt 1])\<rparr>)"
        and resp' = "\<lparr>status_code = 404, json = Some (JArr [JInt 1])\<rparr>"]
  by (simp add: flask_serve_def)

text \<open>
  The Product Service answers 503, outside 2xx, with the JSON body \<open>[]\<close>: the handler
  does not raise, and the caller gets 200 with an empty cart.
\<close>

theorem cart_non_2xx_counterexample:
  "network (deployment (Inr \<lparr>status_code = 503, json = Some (JArr [])\<rparr>) :: unit world)
       PRODUCT_SERVICE_URL = Inr \<lparr>status_code = 503, json = Some (JArr [])\<rparr>
   \<and> \<not> (200 \<le> (503::nat) \<and> (503::nat) < 300)
   \<and> fst (cart get_cart
         (deployment (Inr \<lparr>status_code = 503, json = Some (JArr [])\<rparr>) :: unit world))
       = Inr \<lparr>status = 200, payload = Some (JObj [(str ''cart'', JArr [])])\<rparr>
   \<and> status (flask_serve (fst (cart get_cart
         (deployment (Inr \<lparr>status_code = 503, json = Some (JArr [])\<rparr>) :: unit world)))) = 200"
  by (simp add: cart_array flask_serve_def)

text \<open>
  C10. The handler succeeds only when the decoded upstream body can be sliced, that is,
  when it is an array or a string. A body that decodes to an object makes the handler
  raise; a body that decodes to a string gives 200 with \<open>cart\<close> the first two characters
  of the string; and an array gives 200 with its first two elements whatever they are:
  nothing checks that the body is a list of product records.
\<close>

theorem cart_unchecked_shape:
  assumes "network w PRODUCT_SERVICE_URL = Inr resp"
  shows "(json resp = Some (JObj kvs) \<longrightarrow> fst (cart req w) = Inl SubscriptError)
       \<and> (json resp = Some (JStr s) \<longrightarrow>
            fst (cart req w) =
              Inr \<lparr>status = 200, payload = Some (JObj [(str ''cart'', JStr (take 2 s))])\<rparr>)
       \<and> (json resp = Some (JArr xs) \<longrightarrow>
            fst (cart req w) =
              Inr \<lparr>status = 200, payload = Some (JObj [(str ''cart'', JArr (take 2 xs))])\<rparr>)
       \<and> (fst (cart req w) = Inr out \<longrightarrow>
            (\<exists>ys. json resp = Some (JArr ys)) \<or> (\<exists>t. json resp = Some (JStr t)))"
proof (intro conjI impI)
  assume ok: "fst (cart req w) = Inr out"
  from assms ok obtain v where v: "json resp = Some v"
    by (cases "json resp") (simp_all add: cart_not_json)
  from assms v ok obtain u where "slice2 v = Inr u"
    by (cases "slice2 v") (simp_all add: cart_reply)
  with v show "(\<exists>ys. json resp = Some (JArr ys)) \<or> (\<exists>t. json resp = Some (JStr t))"
    using slice2_ok by fastforce
qed (use assms in \<open>simp_all add: cart_reply jsonify_def\<close>)

theorem cart_unchecked_shape_witness:
  "fst (cart get_cart (deployment (Inr \<lparr>status_code = 200,
        json = Some (JObj [(str ''error'', JStr (str ''down''))])\<rparr>) :: unit world))
     = Inl SubscriptError
   \<and> fst (cart get_cart (deployment (Inr \<lparr>status_code = 200,
        json = Some (JStr (str ''Laptop''))\<rparr>) :: unit world))
     = Inr \<lparr>status = 200, payload = Some (JObj [(str ''cart'', JStr (str ''La''))])\<rparr>
   \<and> fst (cart get_cart (deployment (Inr \<lparr>status_code = 200,
        json = Some (JArr [JInt 7, JNull, JBool True])\<rparr>) :: unit world))
     = Inr \<lparr>status = 200, payload = Some (JObj [(str ''cart'', JArr [JInt 7, JNull])])\<rparr>
   \<and> ((\<exists>ys. Some (JArr [JInt 7, JNull, JBool True]) = Some (JArr ys :: unit jsonval))
       \<or> (\<exists>t. Some (JArr [JInt 7, JNull, JBool True]) = Some (JStr t :: unit jsonval)))"
  using cart_unchecked_shape [where
        w = "deployment (Inr \<lparr>status_code = 200,
               json = Some (JObj [(str ''error'', JStr (str ''down''))])\<rparr>) :: unit world"
        and resp = "\<lparr>status_code = 200, json = Some (JObj [(str ''error'', JStr (str ''down''))])\<rparr>"
        and kvs = "[(str ''error'', JStr (str ''down''))]" and req = get_cart]
    cart_unchecked_shape [where
        w = "deployment (Inr \<lparr>status_code = 200, json = Some (JStr (str ''Laptop''))\<rparr>) :: unit world"
        and resp = "\<lparr>status_code = 200, json = Some (JStr (str ''Laptop''))\<rparr>"
        and s = "str ''Laptop''" and req = get_cart]
    cart_unchecked_shape [where
        w = "deployment (Inr \<lparr>status_code = 200,
               json = Some (JArr [JInt 7, JNull, JBool True])\<rparr>) :: unit world"
        and resp = "\<lparr>status_code = 200, json = Some (JArr [JInt 7, JNull, JBool True])\<rparr>"
        and xs = "[JInt 7, JNull, JBool True]" and req = get_cart
        and out = "\<lparr>status = 200, payload = Some (JObj [(str ''cart'', JArr [JInt 7, JNull])])\<rparr>"]
  by (simp add: str_def)

end
